theory Spec2Isabelle
  imports Main "HOL-Library.Word"
begin

unbundle bit_operations_syntax

section \<open>System-call dispatch and argument marshaling (kernel/syscall.c)\<close>

subsection \<open>Machine types and process state\<close>

type_synonym uint64 = "64 word"
type_synonym c_int = "32 word"

text \<open>
  A page table is seen through what a cross-space copy can observe of it: the byte
  behind a user virtual address, or \<open>None\<close> where the page is unmapped or not
  accessible to the user.
\<close>

type_synonym pagetable = "uint64 \<Rightarrow> 8 word option"

text \<open>
  The fields of \<open>struct trapframe\<close> and \<open>struct proc\<close> that syscall.c reads or
  writes. \<open>a0\<close> to \<open>a5\<close> carry the arguments, \<open>a7\<close> the system-call number, and
  \<open>a0\<close> receives the result. The declarations are in proc.h: the registers and
  \<open>sz\<close> are \<open>uint64\<close>, as syscall.c uses them; \<open>pid\<close> is printed with \<open>%d\<close> and
  \<open>trace_mask\<close> is tested against \<open>1 << num\<close>, both taken as \<open>int\<close>; \<open>name\<close> is
  the character array printed with \<open>%s\<close>.
\<close>

record trapframe =
  a0 :: uint64
  a1 :: uint64
  a2 :: uint64
  a3 :: uint64
  a4 :: uint64
  a5 :: uint64
  a7 :: uint64

record proc =
  sz :: uint64
  pagetable :: pagetable
  trapframe :: trapframe
  pid :: c_int
  name :: string
  trace_mask :: c_int

subsection \<open>The handlers and what the dispatcher does to the outside\<close>

text \<open>
  The handlers are \<open>extern uint64 sys_*(void)\<close>: their bodies live elsewhere. The model
  names them and takes their behaviour as a parameter \<open>run\<close>, which maps a handler and
  the process state it finds to its return value and the state it leaves.
\<close>

datatype sysfn =
  sys_fork | sys_exit | sys_wait | sys_pipe | sys_read | sys_kill | sys_exec
| sys_fstat | sys_chdir | sys_dup | sys_getpid | sys_sbrk | sys_sleep | sys_uptime
| sys_open | sys_write | sys_mknod | sys_unlink | sys_link | sys_mkdir | sys_close
| sys_trace | sys_sysinfo

type_synonym handlers = "sysfn \<Rightarrow> proc \<Rightarrow> uint64 \<times> proc"

text \<open>
  An argument handed to \<open>printf\<close>, tagged by the conversion that consumes it:
  \<open>%d\<close> takes an \<open>int\<close>, \<open>%lu\<close> a 64-bit unsigned value, \<open>%p\<close> a pointer,
  \<open>%s\<close> a \<open>char *\<close>. A \<open>char *\<close> is either a kernel string whose contents the
  source fixes (\<open>KStr\<close>: an entry of \<open>syscall_names\<close>, or \<open>p->name\<close>), or a raw
  machine word cast to \<open>char *\<close> (\<open>PtrStr\<close>), which \<open>printf\<close> dereferences itself.
\<close>

datatype parg = D c_int | LU uint64 | P uint64 | KStr string | PtrStr uint64

text \<open>
  What one run leaves behind besides the new process state, in program order: handler
  invocations, \<open>printf\<close> calls (format string and arguments), and calls of
  \<open>copyin\<close> (source address and length).
\<close>

datatype event =
  Call sysfn
| Printf string "parg list"
| Copyin uint64 uint64

subsection \<open>Constants of syscall.h and the tables\<close>

text \<open>
  Modelled from the spec: syscall.h, which defines the \<open>SYS_*\<close> numbers, is not part of
  the sources at hand. The spec has the identifiers dense, small and positive, with 0
  unused and every identifier in \<open>[1, N]\<close>; the dispatcher prints
  \<open>syscall_names[num - 1]\<close> as the name of call \<open>num\<close>, so the numbers follow the order
  of \<open>syscall_names\<close>.
\<close>

definition SYS_fork :: c_int where "SYS_fork = 1"
definition SYS_exit :: c_int where "SYS_exit = 2"
definition SYS_wait :: c_int where "SYS_wait = 3"
definition SYS_pipe :: c_int where "SYS_pipe = 4"
definition SYS_read :: c_int where "SYS_read = 5"
definition SYS_kill :: c_int where "SYS_kill = 6"
definition SYS_exec :: c_int where "SYS_exec = 7"
definition SYS_fstat :: c_int where "SYS_fstat = 8"
definition SYS_chdir :: c_int where "SYS_chdir = 9"
definition SYS_dup :: c_int where "SYS_dup = 10"
definition SYS_getpid :: c_int where "SYS_getpid = 11"
definition SYS_sbrk :: c_int where "SYS_sbrk = 12"
definition SYS_sleep :: c_int where "SYS_sleep = 13"
definition SYS_uptime :: c_int where "SYS_uptime = 14"
definition SYS_open :: c_int where "SYS_open = 15"
definition SYS_write :: c_int where "SYS_write = 16"
definition SYS_mknod :: c_int where "SYS_mknod = 17"
definition SYS_unlink :: c_int where "SYS_unlink = 18"
definition SYS_link :: c_int where "SYS_link = 19"
definition SYS_mkdir :: c_int where "SYS_mkdir = 20"
definition SYS_close :: c_int where "SYS_close = 21"
definition SYS_trace :: c_int where "SYS_trace = 22"
definition SYS_sysinfo :: c_int where "SYS_sysinfo = 23"

definition syscall_names :: "string list" where
  "syscall_names =
    [''fork'', ''exit'', ''wait'', ''pipe'', ''read'', ''kill'', ''exec'', ''fstat'', ''chdir'',
     ''dup'', ''getpid'', ''sbrk'', ''sleep'', ''uptime'', ''open'', ''write'', ''mknod'', ''unlink'',
     ''link'', ''mkdir'', ''close'', ''trace'', ''sysinfo'']"

text \<open>
  A C array written with designated initialisers \<open>[i] v\<close> and no stated size: it has
  one more element than the largest index, and the slots not named are zero (a null
  function pointer, here \<open>None\<close>).
\<close>

definition designated :: "(c_int \<times> 'a) list \<Rightarrow> 'a option list" where
  "designated inits =
     map (\<lambda>i. map_of (map (\<lambda>(k, v). (unat k, v)) inits) i)
         [0 ..< (if inits = [] then 0 else Suc (Max (set (map (\<lambda>(k, v). unat k) inits))))]"

definition syscalls :: "sysfn option list" where
  "syscalls = designated
    [(SYS_fork, sys_fork),
     (SYS_exit, sys_exit),
     (SYS_wait, sys_wait),
     (SYS_pipe, sys_pipe),
     (SYS_read, sys_read),
     (SYS_kill, sys_kill),
     (SYS_exec, sys_exec),
     (SYS_fstat, sys_fstat),
     (SYS_chdir, sys_chdir),
     (SYS_dup, sys_dup),
     (SYS_getpid, sys_getpid),
     (SYS_sbrk, sys_sbrk),
     (SYS_sleep, sys_sleep),
     (SYS_uptime, sys_uptime),
     (SYS_open, sys_open),
     (SYS_write, sys_write),
     (SYS_mknod, sys_mknod),
     (SYS_unlink, sys_unlink),
     (SYS_link, sys_link),
     (SYS_mkdir, sys_mkdir),
     (SYS_close, sys_close),
     (SYS_trace, sys_trace),
     (SYS_sysinfo, sys_sysinfo)]"

text \<open>\<open>NELEM(x)\<close> is \<open>sizeof(x)/sizeof((x)[0])\<close>, an unsigned 64-bit count.\<close>

definition NELEM :: "'a list \<Rightarrow> uint64" where
  "NELEM xs = of_nat (length xs)"

subsection \<open>Argument marshaling\<close>

datatype panic = Panic string

text \<open>
  \<open>argraw\<close>: the \<open>switch\<close> returns the register of slot \<open>n\<close>; any other \<open>n\<close> falls out
  of the \<open>switch\<close> into \<open>panic("argraw")\<close>, which does not return.
\<close>

definition argraw :: "proc \<Rightarrow> c_int \<Rightarrow> panic + uint64" where
  "argraw p n =
     (if n = 0 then Inr (a0 (trapframe p))
      else if n = 1 then Inr (a1 (trapframe p))
      else if n = 2 then Inr (a2 (trapframe p))
      else if n = 3 then Inr (a3 (trapframe p))
      else if n = 4 then Inr (a4 (trapframe p))
      else if n = 5 then Inr (a5 (trapframe p))
      else Inl (Panic ''argraw''))"

text \<open>\<open>argint\<close> stores the raw word narrowed to \<open>int\<close>; \<open>argaddr\<close> stores it as it is.\<close>

definition argint :: "proc \<Rightarrow> c_int \<Rightarrow> panic + c_int" where
  "argint p n = (case argraw p n of Inl e \<Rightarrow> Inl e | Inr w \<Rightarrow> Inr (ucast w))"


text \<open>
  \<open>copyin\<close> (vm.c) is taken as a parameter: from the page table, the current contents
  of the destination word, the source address and the length it yields its status and
  the contents it leaves in the destination.
\<close>

type_synonym copyin_fn = "pagetable \<Rightarrow> uint64 \<Rightarrow> uint64 \<Rightarrow> uint64 \<Rightarrow> c_int \<times> uint64"

text \<open>
  \<open>fetchaddr\<close> returns its status, the contents of \<open>*ip\<close> and the copies it
  attempted. \<open>sizeof(uint64)\<close> is 8; \<open>addr + 8\<close> is 64-bit unsigned and wraps.
\<close>

definition fetchaddr :: "copyin_fn \<Rightarrow> proc \<Rightarrow> uint64 \<Rightarrow> uint64 \<Rightarrow> c_int \<times> uint64 \<times> event list" where
  "fetchaddr cpin p addr ip =
     (if addr \<ge> sz p \<or> addr + 8 > sz p then (- 1, ip, [])
      else (case cpin (pagetable p) ip addr 8 of (r, ip') \<Rightarrow>
              if r \<noteq> 0 then (- 1, ip', [Copyin addr 8])
              else (0, ip', [Copyin addr 8])))"

text \<open>
  Modelled from the spec: \<open>copyinstr\<close> (vm.c) is not part of the sources at hand. The
  spec describes it as the bounded copy that fails when it "cannot find a NUL terminator
  within max length bytes or encounters an inaccessible page". \<open>copyinstr_loop\<close> walks
  the user bytes from \<open>va\<close> with \<open>n\<close> bytes left and yields whether a NUL was copied,
  the bytes copied (the NUL included) and the addresses it read.
\<close>

fun copyinstr_loop :: "pagetable \<Rightarrow> uint64 \<Rightarrow> nat \<Rightarrow> bool \<times> 8 word list \<times> uint64 list" where
  "copyinstr_loop pt va 0 = (False, [], [])"
| "copyinstr_loop pt va (Suc n) =
     (case pt va of
        None \<Rightarrow> (False, [], [])
      | Some b \<Rightarrow>
          if b = 0 then (True, [0], [va])
          else (case copyinstr_loop pt (va + 1) n of
                  (ok, bs, rd) \<Rightarrow> (ok, b # bs, va # rd)))"

text \<open>
  Modelled from the spec: \<open>copyinstr(pagetable, dst, srcva, max)\<close> returns 0 when the
  string and its NUL were copied and -1 otherwise; the bytes copied overwrite the front
  of \<open>dst\<close>. The result carries the status, the buffer and the addresses read.
\<close>

definition copyinstr :: "pagetable \<Rightarrow> 8 word list \<Rightarrow> uint64 \<Rightarrow> uint64 \<Rightarrow> c_int \<times> 8 word list \<times> uint64 list" where
  "copyinstr pt dst srcva maxb =
     (case copyinstr_loop pt srcva (unat maxb) of
        (ok, bs, rd) \<Rightarrow> (if ok then 0 else - 1, bs @ drop (length bs) dst, rd))"

text \<open>C's \<open>strlen\<close>: the number of bytes before the first NUL.\<close>

definition strlen :: "8 word list \<Rightarrow> nat" where
  "strlen buf = length (takeWhile (\<lambda>b. b \<noteq> 0) buf)"

text \<open>
  \<open>fetchstr\<close>: the \<open>int max\<close> (here \<open>maxb\<close>) is converted to the unsigned 64-bit parameter of
  \<open>copyinstr\<close>; the length is returned as an \<open>int\<close>.
\<close>

definition fetchstr :: "proc \<Rightarrow> uint64 \<Rightarrow> 8 word list \<Rightarrow> c_int \<Rightarrow> c_int \<times> 8 word list \<times> uint64 list" where
  "fetchstr p addr buf maxb =
     (case copyinstr (pagetable p) buf addr (scast maxb) of
        (r, buf', rd) \<Rightarrow>
          if r <s 0 then (- 1, buf', rd)
          else (of_nat (strlen buf'), buf', rd))"


subsection \<open>The dispatcher\<close>

text \<open>
  The \<open>switch (num)\<close> of the trace branch: the \<open>printf\<close> calls that render the
  arguments of call \<open>num\<close> from \<open>args_list\<close>.
\<close>

definition trace_args :: "c_int \<Rightarrow> uint64 list \<Rightarrow> event list" where
  "trace_args num args_list =
     (if num \<in> {SYS_exit, SYS_kill, SYS_dup, SYS_sbrk, SYS_sleep, SYS_close, SYS_trace} then
        [Printf ''%lu'' [LU (args_list ! 0)]]
      else if num \<in> {SYS_wait, SYS_pipe} then
        [Printf ''%p'' [P (args_list ! 0)]]
      else if num \<in> {SYS_read, SYS_write} then
        [Printf ''%lu, %p, %lu'' [LU (args_list ! 0), P (args_list ! 1), LU (args_list ! 2)]]
      else if num = SYS_exec then
        [if args_list ! 0 = 0 then Printf ''NULL, '' []
         else Printf ''%p, '' [P (args_list ! 0)],
         if args_list ! 1 = 0 then Printf ''NULL,'' []
         else Printf ''%p'' [P (args_list ! 1)]]
      else if num = SYS_fstat then
        [Printf ''%lu, %p'' [LU (args_list ! 0), P (args_list ! 1)]]
      else if num \<in> {SYS_chdir, SYS_unlink, SYS_mkdir} then
        [Printf ''%s'' [PtrStr (args_list ! 0)]]
      else if num = SYS_open then
        [if args_list ! 0 = 0 then Printf ''NULL, %lu'' [LU (args_list ! 1)]
         else Printf ''%p, %lu'' [P (args_list ! 0), LU (args_list ! 1)]]
      else if num = SYS_mknod then
        [Printf ''%s, %lu, %lu'' [PtrStr (args_list ! 0), LU (args_list ! 1), LU (args_list ! 2)]]
      else if num = SYS_link then
        [Printf ''%s, %s'' [PtrStr (args_list ! 0), PtrStr (args_list ! 1)]]
      else [])"

text \<open>The \<open>else\<close> branch of \<open>syscall\<close>: \<open>num\<close> is not a valid system-call number.\<close>

definition unknown_syscall :: "proc \<Rightarrow> c_int \<Rightarrow> event list \<times> proc" where
  "unknown_syscall p num =
     ([Printf ''%d %s: unknown sys call %d\<newline>'' [D (pid p), KStr (name p), D num]],
      p\<lparr>trapframe := (trapframe p)\<lparr>a0 := - 1\<rparr>\<rparr>)"

text \<open>
  \<open>syscall\<close>. \<open>args_list\<close> and \<open>num\<close> are read before the handler runs; \<open>num\<close> is the
  64-bit \<open>a7\<close> narrowed to \<open>int\<close>. In \<open>num < NELEM(syscalls)\<close> the \<open>int\<close> is converted
  to the unsigned 64-bit type of \<open>NELEM\<close>. The third conjunct of the test,
  \<open>syscalls[num]\<close> being non-null, is the \<open>case\<close> on the slot: an empty slot leads to
  the same \<open>else\<close> branch as a number out of range. \<open>return_val\<close> is an \<open>int\<close>: the handler's
  \<open>uint64\<close> result is narrowed into it, and widened again (with its sign) when it is
  stored into \<open>a0\<close>. \<open>p->trace_mask\<close>, \<open>p->pid\<close> and \<open>p->trapframe\<close> are read after the
  handler has returned.
\<close>

definition syscall :: "handlers \<Rightarrow> proc \<Rightarrow> event list \<times> proc" where
  "syscall run p =
     (let args_list = [a0 (trapframe p), a1 (trapframe p), a2 (trapframe p),
                       a3 (trapframe p), a4 (trapframe p), a5 (trapframe p)];
          num = (ucast (a7 (trapframe p)) :: c_int)
      in if 0 <s num \<and> scast num < NELEM syscalls then
           (case syscalls ! nat (sint num) of
              Some f \<Rightarrow>
                (case run f p of (r, p') \<Rightarrow>
                   let return_val = (ucast r :: c_int)
                   in (Call f #
                       (if trace_mask p' AND push_bit (nat (sint num)) 1 \<noteq> 0 then
                          [Printf ''%d: syscall %s('' [D (pid p'), KStr (syscall_names ! nat (sint num - 1))]]
                          @ trace_args num args_list
                          @ [Printf '') -> %d\<newline>'' [D return_val]]
                        else []),
                       p'\<lparr>trapframe := (trapframe p')\<lparr>a0 := scast return_val\<rparr>\<rparr>))
            | None \<Rightarrow> unknown_syscall p num)
         else unknown_syscall p num)"

subsection \<open>Observations and sample inputs\<close>

text \<open>The handlers a run invoked, in order.\<close>

fun calls :: "event list \<Rightarrow> sysfn list" where
  "calls [] = []"
| "calls (Call f # es) = f # calls es"
| "calls (e # es) = calls es"

text \<open>The process with another value in the system-call number register.\<close>

definition with_a7 :: "uint64 \<Rightarrow> proc \<Rightarrow> proc" where
  "with_a7 w p = p\<lparr>trapframe := (trapframe p)\<lparr>a7 := w\<rparr>\<rparr>"

text \<open>
  A sample process: it calls \<open>read(5, 0x1000, 10)\<close> with tracing enabled for
  \<open>read\<close> (bit 5). Its memory holds the string \<open>"hi"\<close> at address \<open>0x10\<close> and the
  byte \<open>0x41\<close> everywhere else below \<open>0x1000\<close>; nothing is mapped above.
\<close>

definition ex_mem :: pagetable where
  "ex_mem va =
     (if va = 0x10 then Some 0x68 else if va = 0x11 then Some 0x69
      else if va = 0x12 then Some 0 else if va < 0x1000 then Some 0x41 else None)"

definition ex_proc :: proc where
  "ex_proc =
     \<lparr>sz = 0x1000, pagetable = ex_mem,
      trapframe = \<lparr>a0 = 5, a1 = 0x1000, a2 = 10, a3 = 0, a4 = 0, a5 = 0, a7 = 5\<rparr>,
      pid = 3, name = ''sh'', trace_mask = 0x20\<rparr>"

text \<open>Handlers that all return \<open>v\<close> and leave the process as it is.\<close>

definition run_const :: "uint64 \<Rightarrow> handlers" where
  "run_const v f p = (v, p)"

text \<open>
  Sample handlers that return 0, of which \<open>sys_trace\<close> stores its first argument
  into the trace mask of the process.
\<close>

definition run_trace :: handlers where
  "run_trace f p =
     (0, if f = sys_trace then p\<lparr>trace_mask := ucast (a0 (trapframe p))\<rparr> else p)"

text \<open>A \<open>copyin\<close> that always succeeds and delivers the word 42.\<close>

definition ex_copyin :: copyin_fn where
  "ex_copyin pt ip addr len = (0, 42)"

section \<open>Properties\<close>

subsection \<open>Auxiliary facts\<close>

lemmas SYS_defs =
  SYS_fork_def SYS_exit_def SYS_wait_def SYS_pipe_def SYS_read_def SYS_kill_def
  SYS_exec_def SYS_fstat_def SYS_chdir_def SYS_dup_def SYS_getpid_def SYS_sbrk_def
  SYS_sleep_def SYS_uptime_def SYS_open_def SYS_write_def SYS_mknod_def
  SYS_unlink_def SYS_link_def SYS_mkdir_def SYS_close_def SYS_trace_def
  SYS_sysinfo_def

lemma syscalls_eq:
  "syscalls =
    [None, Some sys_fork, Some sys_exit, Some sys_wait, Some sys_pipe, Some sys_read,
     Some sys_kill, Some sys_exec, Some sys_fstat, Some sys_chdir, Some sys_dup,
     Some sys_getpid, Some sys_sbrk, Some sys_sleep, Some sys_uptime, Some sys_open,
     Some sys_write, Some sys_mknod, Some sys_unlink, Some sys_link, Some sys_mkdir,
     Some sys_close, Some sys_trace, Some sys_sysinfo]"
  by code_simp

lemma NELEM_syscalls: "NELEM syscalls = 24"
  by (simp add: syscalls_eq NELEM_def)

lemma small_c_int:
  fixes n :: c_int
  assumes "0 \<le> sint n" and "sint n \<le> 5"
  shows "n \<in> {0, 1, 2, 3, 4, 5}"
proof -
  have "sint n \<in> {0, 1, 2, 3, 4, 5}"
    using assms by auto
  moreover have "n = word_of_int (sint n)"
    by simp
  ultimately show ?thesis
    by (metis insert_iff of_int_0 of_int_1 of_int_numeral empty_iff)
qed


lemma calls_append: "calls (xs @ ys) = calls xs @ calls ys"
  by (induction xs rule: calls.induct) simp_all

lemma calls_trace_args: "calls (trace_args num args) = []"
  by (simp add: trace_args_def)

subsection \<open>Raw argument slots\<close>

text \<open>
  Claim C8. For every slot index \<open>n\<close> from 0 to 5, \<open>argraw\<close> returns the matching
  trapframe register (\<open>a0\<close> for 0, up to \<open>a5\<close> for 5), with no validation and no
  failure; for every other index it ends in \<open>panic("argraw")\<close>. So when callers pass
  only indices 0 to 5, the panic is never reached.
\<close>

theorem argraw_slots:
  "(0 \<le>s n \<and> n \<le>s 5 \<longrightarrow>
      argraw p n = Inr ([a0 (trapframe p), a1 (trapframe p), a2 (trapframe p),
                         a3 (trapframe p), a4 (trapframe p), a5 (trapframe p)] ! nat (sint n))
      \<and> (\<forall>e. argraw p n \<noteq> Inl e))
   \<and> (n <s 0 \<or> 5 <s n \<longrightarrow> argraw p n = Inl (Panic ''argraw''))"
proof (intro conjI impI)
  assume "0 \<le>s n \<and> n \<le>s 5"
  then have "n \<in> {0, 1, 2, 3, 4, 5}"
    by (intro small_c_int) (simp_all add: word_sle_eq)
  then show "argraw p n = Inr ([a0 (trapframe p), a1 (trapframe p), a2 (trapframe p),
                         a3 (trapframe p), a4 (trapframe p), a5 (trapframe p)] ! nat (sint n))"
    by (auto simp: argraw_def)
  then show "\<forall>e. argraw p n \<noteq> Inl e"
    by simp
next
  assume "n <s 0 \<or> 5 <s n"
  then show "argraw p n = Inl (Panic ''argraw'')"
    by (auto simp: argraw_def word_sless_alt)
qed

theorem argraw_slots_witness:
  "(0::c_int) \<le>s 1 \<and> (1::c_int) \<le>s 5 \<and> argraw ex_proc 1 = Inr 0x1000
   \<and> (5::c_int) <s 6 \<and> argraw ex_proc 6 = Inl (Panic ''argraw'')
   \<and> (- 1 :: c_int) <s 0 \<and> argraw ex_proc (- 1) = Inl (Panic ''argraw'')"
  using argraw_slots [of 1 ex_proc] argraw_slots [of 6 ex_proc] argraw_slots [of "- 1" ex_proc]
  by (simp add: word_sle_eq word_sless_alt ex_proc_def)


subsection \<open>Fetching a word from user memory\<close>

text \<open>
  Claim C3, as stated: for all addresses and all size bounds \<open>fetchaddr\<close> fails
  whenever \<open>addr \<ge> sz\<close> or \<open>addr + 8 > sz\<close>, before any copy, so that an address within
  8 of the largest 64-bit value is rejected although \<open>addr + 8\<close> wraps. This fails for
  the bounds above \<open>2^64 - 8\<close>: with \<open>sz = 2^64 - 1\<close> and \<open>addr = 2^64 - 8\<close> the sum
  wraps to 0, neither test fires, and the copy is attempted.
\<close>

theorem fetchaddr_wrap_counterexample:
  "(0xFFFFFFFFFFFFFFF8 :: uint64) + 8 = 0
   \<and> fetchaddr ex_copyin (ex_proc\<lparr>sz := 0xFFFFFFFFFFFFFFFF\<rparr>) 0xFFFFFFFFFFFFFFF8 0
       = (0, 42, [Copyin 0xFFFFFFFFFFFFFFF8 8])"
  by (simp add: fetchaddr_def ex_copyin_def)

text \<open>
  Claim C3, amended: for all addresses and all size bounds \<open>fetchaddr\<close> returns -1,
  with \<open>*ip\<close> untouched and no copy attempted, whenever \<open>addr \<ge> sz\<close> or the wrapped
  sum \<open>addr + 8\<close> exceeds \<open>sz\<close>. An address within 8 of the largest 64-bit value
  (\<open>addr \<ge> 2^64 - 8\<close>, where \<open>addr + 8\<close> wraps to less than 8) is rejected for every
  bound up to \<open>2^64 - 8\<close>.
\<close>

theorem fetchaddr_bounds:
  "(sz p \<le> addr \<or> sz p < addr + 8 \<longrightarrow> fetchaddr cpin p addr ip = (- 1, ip, []))
   \<and> (0xFFFFFFFFFFFFFFF8 \<le> addr \<and> sz p \<le> 0xFFFFFFFFFFFFFFF8 \<longrightarrow>
        addr + 8 < 8 \<and> fetchaddr cpin p addr ip = (- 1, ip, []))"
proof (intro conjI impI)
  assume "sz p \<le> addr \<or> sz p < addr + 8"
  then show "fetchaddr cpin p addr ip = (- 1, ip, [])"
    by (simp add: fetchaddr_def)
next
  assume h: "0xFFFFFFFFFFFFFFF8 \<le> addr \<and> sz p \<le> 0xFFFFFFFFFFFFFFF8"
  then have "18446744073709551608 \<le> unat addr"
    by (simp add: word_le_nat_alt)
  moreover have "unat addr < 2 ^ LENGTH(64)"
    by (rule unsigned_less)
  then have "unat addr < 18446744073709551616"
    by simp
  moreover have "unat (addr + 8) = (unat addr + 8) mod 18446744073709551616"
    by (simp add: unat_word_ariths)
  ultimately have "unat (addr + 8) < 8"
    by (simp add: le_mod_geq)
  then show "addr + 8 < 8"
    by (simp add: word_less_nat_alt)
  from h have "sz p \<le> addr"
    by (metis order_trans)
  then show "fetchaddr cpin p addr ip = (- 1, ip, [])"
    by (simp add: fetchaddr_def)
qed

theorem fetchaddr_bounds_witness:
  "sz ex_proc \<le> 0x1000 \<and> fetchaddr ex_copyin ex_proc 0x1000 7 = (- 1, 7, [])
   \<and> sz ex_proc < 0xFFC + 8 \<and> fetchaddr ex_copyin ex_proc 0xFFC 7 = (- 1, 7, [])
   \<and> (0xFFFFFFFFFFFFFFF8 :: uint64) \<le> 0xFFFFFFFFFFFFFFFC \<and> sz ex_proc \<le> 0xFFFFFFFFFFFFFFF8
   \<and> (0xFFFFFFFFFFFFFFFC :: uint64) + 8 < 8
   \<and> fetchaddr ex_copyin ex_proc 0xFFFFFFFFFFFFFFFC 7 = (- 1, 7, [])"
  using fetchaddr_bounds [of ex_proc "0x1000" ex_copyin 7]
    fetchaddr_bounds [of ex_proc "0xFFC" ex_copyin 7]
    fetchaddr_bounds [of ex_proc "0xFFFFFFFFFFFFFFFC" ex_copyin 7]
  by (simp add: ex_proc_def)

subsection \<open>Fetching a string from user memory\<close>










subsection \<open>The dispatcher: case analysis\<close>

text \<open>One run of \<open>syscall\<close> takes either the handler branch or the unknown branch.\<close>

lemma syscall_cases:
  fixes run :: handlers and p :: proc
  defines "num \<equiv> (ucast (a7 (trapframe p)) :: c_int)"
  obtains (valid) f r p' where "0 <s num" and "scast num < NELEM syscalls"
      and "syscalls ! nat (sint num) = Some f" and "run f p = (r, p')"
      and "syscall run p =
            (Call f #
              (if trace_mask p' AND push_bit (nat (sint num)) 1 \<noteq> 0 then
                 [Printf ''%d: syscall %s('' [D (pid p'), KStr (syscall_names ! nat (sint num - 1))]]
                 @ trace_args num [a0 (trapframe p), a1 (trapframe p), a2 (trapframe p),
                                   a3 (trapframe p), a4 (trapframe p), a5 (trapframe p)]
                 @ [Printf '') -> %d\<newline>'' [D (ucast r)]]
               else []),
             p'\<lparr>trapframe := (trapframe p')\<lparr>a0 := scast (ucast r :: c_int)\<rparr>\<rparr>)"
  | (unknown) "\<not> (0 <s num \<and> scast num < NELEM syscalls \<and> syscalls ! nat (sint num) \<noteq> None)"
      and "syscall run p = unknown_syscall p num"
proof (cases "0 <s num \<and> scast num < NELEM syscalls \<and> syscalls ! nat (sint num) \<noteq> None")
  case True
  then obtain f where f: "syscalls ! nat (sint num) = Some f"
    by auto
  obtain r p' where r: "run f p = (r, p')"
    by (cases "run f p")
  show ?thesis
    using True f r
    by (intro valid [of f r p']) (simp_all add: syscall_def Let_def num_def [symmetric])
next
  case False
  then have "syscall run p = unknown_syscall p num"
    unfolding syscall_def Let_def num_def [symmetric]
    by (auto split: option.splits)
  with False show ?thesis
    by (rule unknown)
qed

text \<open>The handlers a run invokes: the one in the slot of \<open>num\<close>, or none.\<close>

lemma calls_syscall:
  "calls (fst (syscall run p)) =
     (let num = (ucast (a7 (trapframe p)) :: c_int)
      in if 0 <s num \<and> scast num < NELEM syscalls then
           (case syscalls ! nat (sint num) of Some f \<Rightarrow> [f] | None \<Rightarrow> [])
         else [])"
  by (cases p rule: syscall_cases [where run = run])
    (auto simp: calls_append calls_trace_args unknown_syscall_def Let_def)

lemma no_calls_unknown:
  assumes "calls (fst (syscall run p)) = []"
  shows "syscall run p = unknown_syscall p (ucast (a7 (trapframe p)))"
  using assms
  by (cases p rule: syscall_cases [where run = run]) (auto simp: unknown_syscall_def)

lemma bit31_negative:
  fixes w :: uint64
  assumes "bit w 31"
  shows "(ucast w :: c_int) <s 0"
proof -
  have "bit (ucast w :: c_int) (LENGTH(32) - Suc 0)"
    using assms by (simp add: bit_ucast_iff)
  then have "sint (ucast w :: c_int) < 0"
    by (simp only: bit_last_iff)
  then show ?thesis
    by (simp add: word_sless_alt)
qed

lemma ucast_congruent:
  fixes w w' :: uint64
  shows "(ucast w :: c_int) = ucast w' \<longleftrightarrow> uint w mod 2 ^ 32 = uint w' mod 2 ^ 32"
proof -
  have "uint (ucast v :: c_int) = uint v mod 2 ^ 32" for v :: uint64
    by (simp add: unsigned_ucast_eq take_bit_eq_mod)
  then show ?thesis
    by (metis word_uint_eq_iff)
qed

subsection \<open>Unknown system-call numbers\<close>

text \<open>
  Claim C2, as stated: every identifier that is \<open>\<le> 0\<close>, or at least the size of the
  dispatch table, or whose slot is unregistered, gets the diagnostic, -1 in \<open>a0\<close> and
  no handler. The identifier slot \<open>a7\<close> holds 64 bits, and the dispatcher judges only
  its low 32 bits: the identifier \<open>2^32 + 1\<close> is far above the table size, yet
  \<open>sys_fork\<close> is invoked, no diagnostic is printed, and \<open>a0\<close> receives the handler's
  result. The identifier \<open>2^32 + 9999\<close> is rejected, with 9999 in the diagnostic.
\<close>

theorem syscall_unknown_counterexample:
  "NELEM syscalls \<le> (0x100000001 :: uint64)
   \<and> syscall (run_const 7) (with_a7 0x100000001 ex_proc) =
       ([Call sys_fork], ex_proc\<lparr>trapframe := (trapframe ex_proc)\<lparr>a0 := 7, a7 := 0x100000001\<rparr>\<rparr>)
   \<and> fst (syscall (run_const 7) (with_a7 0x10000270F ex_proc)) =
       [Printf ''%d %s: unknown sys call %d\<newline>'' [D 3, KStr ''sh'', D 9999]]"
proof -
  have slot: "syscalls ! 1 = Some sys_fork"
    by (simp add: syscalls_eq)
  show ?thesis
    using slot
    by (simp add: syscall_def with_a7_def ex_proc_def run_const_def NELEM_syscalls
        unknown_syscall_def word_sless_alt)
qed

text \<open>
  Claim C2, amended: let \<open>num\<close> be the low 32 bits of the identifier slot \<open>a7\<close>, read
  as a signed \<open>int\<close>. Whenever \<open>num \<le> 0\<close>, or \<open>num\<close> is at least the size of the
  dispatch table, or the slot of \<open>num\<close> is empty, the dispatcher emits exactly one
  \<open>printf\<close>, the diagnostic \<open>"%d %s: unknown sys call %d\n"\<close> with the process id,
  the process name and \<open>num\<close>; it sets \<open>a0\<close> to -1; it invokes no handler; and it
  emits no trace line, whatever the trace mask holds.
\<close>

theorem syscall_unknown:
  fixes run :: handlers and p :: proc
  defines "num \<equiv> (ucast (a7 (trapframe p)) :: c_int)"
  assumes "num \<le>s 0 \<or> NELEM syscalls \<le> scast num \<or> syscalls ! nat (sint num) = None"
  shows "syscall run p =
           ([Printf ''%d %s: unknown sys call %d\<newline>'' [D (pid p), KStr (name p), D num]],
            p\<lparr>trapframe := (trapframe p)\<lparr>a0 := - 1\<rparr>\<rparr>)
         \<and> calls (fst (syscall run p)) = []
         \<and> a0 (trapframe (snd (syscall run p))) = - 1"
proof -
  have "syscall run p = unknown_syscall p num"
    using assms(2) unfolding syscall_def Let_def num_def [symmetric]
    by (auto simp: word_sle_eq word_sless_alt not_less split: option.splits)
  then show ?thesis
    by (simp add: unknown_syscall_def)
qed

theorem syscall_unknown_witness:
  "NELEM syscalls \<le> scast (ucast (9999 :: uint64) :: c_int)
   \<and> syscall (run_const 7) (with_a7 9999 (ex_proc\<lparr>trace_mask := - 1\<rparr>)) =
       ([Printf ''%d %s: unknown sys call %d\<newline>'' [D 3, KStr ''sh'', D 9999]],
        ex_proc\<lparr>trapframe := (trapframe ex_proc)\<lparr>a0 := - 1, a7 := 9999\<rparr>, trace_mask := - 1\<rparr>)
   \<and> (ucast (0 :: uint64) :: c_int) \<le>s 0
   \<and> fst (syscall (run_const 7) (with_a7 0 ex_proc)) =
       [Printf ''%d %s: unknown sys call %d\<newline>'' [D 3, KStr ''sh'', D 0]]"
  using syscall_unknown [where p = "with_a7 9999 (ex_proc\<lparr>trace_mask := - 1\<rparr>)" and run = "run_const 7"]
    syscall_unknown [where p = "with_a7 0 ex_proc" and run = "run_const 7"]
  by (simp add: with_a7_def ex_proc_def NELEM_syscalls)

subsection \<open>Narrowing of the system-call number\<close>

text \<open>
  Claim C9. The dispatcher narrows the 64-bit \<open>a7\<close> to a 32-bit signed \<open>int\<close> before
  it validates it. So two values of \<open>a7\<close> that are congruent modulo \<open>2^32\<close> select the
  same handler, or both none, and then produce the same diagnostic and the same -1
  in \<open>a0\<close>. In particular \<open>a7 = 2^32 + 1\<close> invokes the handler of call 1,
  \<open>sys_fork\<close>; and a value with bit 31 set is a negative \<open>num\<close> and is rejected as
  unknown.
\<close>

theorem syscall_number_narrowed:
  fixes run :: handlers and p :: proc and w w' :: uint64
  shows "(uint w mod 2 ^ 32 = uint w' mod 2 ^ 32 \<longrightarrow>
            calls (fst (syscall run (with_a7 w p))) = calls (fst (syscall run (with_a7 w' p)))
            \<and> (calls (fst (syscall run (with_a7 w p))) = [] \<longrightarrow>
                 fst (syscall run (with_a7 w p)) = fst (syscall run (with_a7 w' p))
                 \<and> a0 (trapframe (snd (syscall run (with_a7 w p)))) = - 1
                 \<and> a0 (trapframe (snd (syscall run (with_a7 w' p)))) = - 1))
       \<and> calls (fst (syscall run (with_a7 (2 ^ 32 + 1) p))) = [sys_fork]
       \<and> (bit w 31 \<longrightarrow>
            (ucast w :: c_int) <s 0
            \<and> syscall run (with_a7 w p) =
                 ([Printf ''%d %s: unknown sys call %d\<newline>'' [D (pid p), KStr (name p), D (ucast w)]],
                  p\<lparr>trapframe := (trapframe p)\<lparr>a0 := - 1, a7 := w\<rparr>\<rparr>))"
proof (intro conjI impI)
  assume "uint w mod 2 ^ 32 = uint w' mod 2 ^ 32"
  then have eq: "(ucast w :: c_int) = ucast w'"
    by (simp add: ucast_congruent)
  then show same: "calls (fst (syscall run (with_a7 w p))) = calls (fst (syscall run (with_a7 w' p)))"
    by (simp add: calls_syscall with_a7_def)
  assume none: "calls (fst (syscall run (with_a7 w p))) = []"
  then have u: "syscall run (with_a7 w p) = unknown_syscall (with_a7 w p) (ucast w)"
    using no_calls_unknown [of run "with_a7 w p"] by (simp add: with_a7_def)
  from none same have "calls (fst (syscall run (with_a7 w' p))) = []"
    by simp
  then have u': "syscall run (with_a7 w' p) = unknown_syscall (with_a7 w' p) (ucast w')"
    using no_calls_unknown [of run "with_a7 w' p"] by (simp add: with_a7_def)
  show "fst (syscall run (with_a7 w p)) = fst (syscall run (with_a7 w' p))"
    using u u' eq by (simp add: unknown_syscall_def with_a7_def)
  show "a0 (trapframe (snd (syscall run (with_a7 w p)))) = - 1"
    using u by (simp add: unknown_syscall_def)
  show "a0 (trapframe (snd (syscall run (with_a7 w' p)))) = - 1"
    using u' by (simp add: unknown_syscall_def)
next
  have "syscalls ! 1 = Some sys_fork"
    by (simp add: syscalls_eq)
  then show "calls (fst (syscall run (with_a7 (2 ^ 32 + 1) p))) = [sys_fork]"
    by (simp add: calls_syscall with_a7_def NELEM_syscalls word_sless_alt)
next
  assume b: "bit w 31"
  then show neg: "(ucast w :: c_int) <s 0"
    by (rule bit31_negative)
  then have "\<not> 0 <s (ucast w :: c_int)"
    by (simp add: word_sless_alt)
  then have "calls (fst (syscall run (with_a7 w p))) = []"
    by (simp add: calls_syscall with_a7_def)
  then have "syscall run (with_a7 w p) = unknown_syscall (with_a7 w p) (ucast w)"
    using no_calls_unknown [of run "with_a7 w p"] by (simp add: with_a7_def)
  then show "syscall run (with_a7 w p) =
                 ([Printf ''%d %s: unknown sys call %d\<newline>'' [D (pid p), KStr (name p), D (ucast w)]],
                  p\<lparr>trapframe := (trapframe p)\<lparr>a0 := - 1, a7 := w\<rparr>\<rparr>)"
    by (simp add: unknown_syscall_def with_a7_def)
qed

theorem syscall_number_narrowed_witness:
  "uint (0x100000005 :: uint64) mod 2 ^ 32 = uint (5 :: uint64) mod 2 ^ 32
   \<and> calls (fst (syscall (run_const 7) (with_a7 0x100000005 ex_proc))) = [sys_read]
   \<and> uint (0x10000270F :: uint64) mod 2 ^ 32 = uint (0x270F :: uint64) mod 2 ^ 32
   \<and> calls (fst (syscall (run_const 7) (with_a7 0x10000270F ex_proc))) = []
   \<and> fst (syscall (run_const 7) (with_a7 0x10000270F ex_proc)) =
        [Printf ''%d %s: unknown sys call %d\<newline>'' [D 3, KStr ''sh'', D 9999]]
   \<and> bit (0x80000005 :: uint64) 31
   \<and> fst (syscall (run_const 7) (with_a7 0x80000005 ex_proc)) =
        [Printf ''%d %s: unknown sys call %d\<newline>'' [D 3, KStr ''sh'', D (- 2147483643)]]"
proof -
  have slot: "syscalls ! 5 = Some sys_read"
    by (simp add: syscalls_eq)
  have five: "calls (fst (syscall (run_const 7) (with_a7 5 ex_proc))) = [sys_read]"
    using slot by (simp add: calls_syscall with_a7_def ex_proc_def NELEM_syscalls word_sless_alt)
  have big: "syscall (run_const 7) (with_a7 0x270F ex_proc) =
      ([Printf ''%d %s: unknown sys call %d\<newline>'' [D 3, KStr ''sh'', D 9999]],
       ex_proc\<lparr>trapframe := (trapframe ex_proc)\<lparr>a0 := - 1, a7 := 0x270F\<rparr>\<rparr>)"
    by (simp add: syscall_def with_a7_def ex_proc_def NELEM_syscalls unknown_syscall_def)
  have b: "bit (0x80000005 :: uint64) 31"
    by (simp add: bit_numeral_word_iff)
  show ?thesis
    using syscall_number_narrowed [of "0x100000005" 5 "run_const 7" ex_proc]
      syscall_number_narrowed [of "0x10000270F" "0x270F" "run_const 7" ex_proc]
      syscall_number_narrowed [of "0x80000005" 0 "run_const 7" ex_proc] five big b
    by (simp add: ex_proc_def)
qed

subsection \<open>What the dispatcher writes\<close>

text \<open>
  Claim C10, as stated: the dispatcher writes only the return-value slot \<open>a0\<close> and
  leaves the six argument slots unchanged. The return-value slot is argument slot 0
  (\<open>argraw 0\<close> reads \<open>a0\<close>), so that slot does change: a process that traps with
  5 in \<open>a0\<close> and the unknown number 9999 in \<open>a7\<close> finds -1 in argument slot 0
  afterwards.
\<close>

theorem syscall_frame_counterexample:
  "argraw (with_a7 9999 ex_proc) 0 = Inr 5
   \<and> argraw (snd (syscall (run_const 7) (with_a7 9999 ex_proc))) 0 = Inr (- 1)"
  by (simp add: syscall_def with_a7_def ex_proc_def NELEM_syscalls unknown_syscall_def
      argraw_def)

text \<open>
  Claim C10, amended: the dispatcher itself writes only \<open>a0\<close>, which is both the
  return-value slot and argument slot 0. When a handler runs and leaves the process
  in state \<open>p'\<close>, the final state is \<open>p'\<close> with \<open>a0\<close> replaced: the argument slots
  \<open>a1\<close> to \<open>a5\<close>, the identifier slot \<open>a7\<close>, the size bound, the page table, the
  pid, the name and the trace mask are those of \<open>p'\<close>. On the unknown-identifier
  path, where no handler runs, the final state is the initial state with \<open>a0\<close> set
  to -1.
\<close>

theorem syscall_frame:
  fixes run :: handlers and p :: proc
  defines "num \<equiv> (ucast (a7 (trapframe p)) :: c_int)"
  shows "(0 <s num \<and> scast num < NELEM syscalls \<and> syscalls ! nat (sint num) = Some f
            \<and> run f p = (r, p') \<longrightarrow>
          (\<exists>v. snd (syscall run p) = p'\<lparr>trapframe := (trapframe p')\<lparr>a0 := v\<rparr>\<rparr>))
       \<and> (num \<le>s 0 \<or> NELEM syscalls \<le> scast num \<or> syscalls ! nat (sint num) = None \<longrightarrow>
          snd (syscall run p) = p\<lparr>trapframe := (trapframe p)\<lparr>a0 := - 1\<rparr>\<rparr>)"
  unfolding syscall_def Let_def num_def [symmetric]
  by (auto simp: unknown_syscall_def word_sle_eq word_sless_alt not_less split: option.splits)

theorem syscall_frame_witness:
  "0 <s (ucast (22 :: uint64) :: c_int) \<and> scast (ucast (22 :: uint64) :: c_int) < NELEM syscalls
   \<and> syscalls ! nat (sint (ucast (22 :: uint64) :: c_int)) = Some sys_trace
   \<and> run_trace sys_trace (with_a7 22 ex_proc) = (0, with_a7 22 (ex_proc\<lparr>trace_mask := 5\<rparr>))
   \<and> (\<exists>v. snd (syscall run_trace (with_a7 22 ex_proc)) =
         ex_proc\<lparr>trapframe := (trapframe ex_proc)\<lparr>a0 := v, a7 := 22\<rparr>, trace_mask := 5\<rparr>)
   \<and> NELEM syscalls \<le> scast (ucast (9999 :: uint64) :: c_int)
   \<and> snd (syscall run_trace (with_a7 9999 ex_proc)) =
         ex_proc\<lparr>trapframe := (trapframe ex_proc)\<lparr>a0 := - 1, a7 := 9999\<rparr>\<rparr>"
proof -
  have slot: "syscalls ! 22 = Some sys_trace"
    by (simp add: syscalls_eq)
  have ran: "run_trace sys_trace (with_a7 22 ex_proc) = (0, with_a7 22 (ex_proc\<lparr>trace_mask := 5\<rparr>))"
    by (simp add: run_trace_def with_a7_def ex_proc_def)
  show ?thesis
    using syscall_frame [where p = "with_a7 22 ex_proc" and run = run_trace and f = sys_trace
        and r = 0 and p' = "with_a7 22 (ex_proc\<lparr>trace_mask := 5\<rparr>)"]
      syscall_frame [where p = "with_a7 9999 ex_proc" and run = run_trace] slot ran
    by (simp add: with_a7_def ex_proc_def NELEM_syscalls word_sless_alt)
qed

subsection \<open>Trace lines\<close>

text \<open>
  Claim C7 says that the trace line of a registered call ends in the handler's return
  value. The line is printed from \<open>int return_val\<close>, into which the handler's
  \<open>uint64\<close> result has been narrowed. A process that traces \<open>sbrk\<close> (bit 12) and
  calls \<open>sbrk(5)\<close> gets one line: the header with its pid and the name \<open>sbrk\<close>, the
  argument word 5 read at trap entry, and the footer. When \<open>sys_sbrk\<close> returns
  \<open>2^32\<close> the footer prints 0, and when it returns \<open>0x80000000\<close> the footer prints
  \<open>-2147483648\<close>.
\<close>

theorem trace_result_narrowed:
  "run_const 0x100000000 sys_sbrk (with_a7 12 (ex_proc\<lparr>trace_mask := 0x1000\<rparr>))
     = (0x100000000, with_a7 12 (ex_proc\<lparr>trace_mask := 0x1000\<rparr>))
   \<and> fst (syscall (run_const 0x100000000) (with_a7 12 (ex_proc\<lparr>trace_mask := 0x1000\<rparr>))) =
       [Call sys_sbrk,
        Printf ''%d: syscall %s('' [D 3, KStr ''sbrk''],
        Printf ''%lu'' [LU 5],
        Printf '') -> %d\<newline>'' [D 0]]
   \<and> fst (syscall (run_const 0x80000000) (with_a7 12 (ex_proc\<lparr>trace_mask := 0x1000\<rparr>))) =
       [Call sys_sbrk,
        Printf ''%d: syscall %s('' [D 3, KStr ''sbrk''],
        Printf ''%lu'' [LU 5],
        Printf '') -> %d\<newline>'' [D 0x80000000]]
   \<and> sint (0x80000000 :: c_int) = - 2147483648"
proof -
  have slot: "syscalls ! 12 = Some sys_sbrk"
    by (simp add: syscalls_eq)
  have entry: "syscall_names ! 11 = ''sbrk''"
    by (simp add: syscall_names_def)
  show ?thesis
    using slot entry
    by (simp add: syscall_def with_a7_def ex_proc_def run_const_def NELEM_syscalls
        word_sless_alt trace_args_def SYS_defs)
qed

subsection \<open>The value written back\<close>

text \<open>
  Claim C1 says that the handler's 64-bit return value reaches \<open>a0\<close> unaltered. The
  dispatcher invokes the registered handler once, but it keeps the result in
  \<open>int return_val\<close>, so \<open>a0\<close> receives the low 32 bits, sign-extended. With
  \<open>sys_sbrk\<close> returning \<open>0x80000000\<close> the process finds \<open>0xFFFFFFFF80000000\<close> in
  \<open>a0\<close>, and with a handler result of \<open>2^32\<close> it finds 0.
\<close>

theorem syscall_return_narrowed:
  "calls (fst (syscall (run_const 0x80000000) (with_a7 12 ex_proc))) = [sys_sbrk]
   \<and> run_const 0x80000000 sys_sbrk (with_a7 12 ex_proc) = (0x80000000, with_a7 12 ex_proc)
   \<and> a0 (trapframe (snd (syscall (run_const 0x80000000) (with_a7 12 ex_proc))))
        = 0xFFFFFFFF80000000
   \<and> a0 (trapframe (snd (syscall (run_const 0x100000000) (with_a7 12 ex_proc)))) = 0"
proof -
  have slot: "syscalls ! 12 = Some sys_sbrk"
    by (simp add: syscalls_eq)
  have "syscall (run_const v) (with_a7 12 ex_proc) =
          ([Call sys_sbrk],
           (with_a7 12 ex_proc)\<lparr>trapframe :=
              (trapframe (with_a7 12 ex_proc))\<lparr>a0 := scast (ucast v :: c_int)\<rparr>\<rparr>)" for v
    using slot
    by (simp add: syscall_def with_a7_def ex_proc_def run_const_def NELEM_syscalls
        word_sless_alt)
  then show ?thesis
    by (simp add: run_const_def)
qed

subsection \<open>Rendering of pointer and path arguments\<close>

text \<open>
  Claim C4 says that \<open>wait\<close> and \<open>pipe\<close>, traced with 0 in argument word 0, render it
  as the literal text \<open>NULL\<close>. The dispatcher hands the word to \<open>%p\<close> whatever its
  value: no literal \<open>NULL\<close> is printed. The branches for \<open>exec\<close> and \<open>open\<close> do test
  the word and print the literal.
\<close>

theorem single_pointer_null:
  "fst (syscall (run_const 7)
         (ex_proc\<lparr>trapframe := (trapframe ex_proc)\<lparr>a0 := 0, a7 := 3\<rparr>, trace_mask := 8\<rparr>)) =
     [Call sys_wait,
      Printf ''%d: syscall %s('' [D 3, KStr ''wait''],
      Printf ''%p'' [P 0],
      Printf '') -> %d\<newline>'' [D 7]]
   \<and> trace_args SYS_wait [0, w1, w2, w3, w4, w5] = [Printf ''%p'' [P 0]]
   \<and> trace_args SYS_pipe [0, w1, w2, w3, w4, w5] = [Printf ''%p'' [P 0]]
   \<and> trace_args SYS_exec [0, 0, w2, w3, w4, w5] = [Printf ''NULL, '' [], Printf ''NULL,'' []]
   \<and> trace_args SYS_open [0, w1, w2, w3, w4, w5] = [Printf ''NULL, %lu'' [LU w1]]"
proof -
  have slot: "syscalls ! 3 = Some sys_wait"
    by (simp add: syscalls_eq)
  have entry: "syscall_names ! 2 = ''wait''"
    by (simp add: syscall_names_def)
  show ?thesis
    using slot entry
    by (simp add: syscall_def ex_proc_def run_const_def NELEM_syscalls word_sless_alt
        trace_args_def SYS_defs)
qed

text \<open>
  Claim C5 says that for \<open>chdir\<close>, \<open>unlink\<close>, \<open>mkdir\<close>, \<open>mknod\<close> and \<open>link\<close> a path
  argument that is not a readable user string gets a fallback rendering. The
  dispatcher casts the raw register word to \<open>char *\<close> and hands it to \<open>%s\<close>
  whatever its value, with no check and no fallback: here for the address
  \<open>2^64 - 1\<close>, at which \<open>fetchstr\<close> fails. The branch for \<open>open\<close> prints its path
  argument as an address and does not dereference it.
\<close>

theorem path_string_unchecked:
  "fst (syscall (run_const (- 1))
         (ex_proc\<lparr>trapframe := (trapframe ex_proc)\<lparr>a0 := 0xFFFFFFFFFFFFFFFF, a7 := 9\<rparr>,
                  trace_mask := 0x200\<rparr>)) =
     [Call sys_chdir,
      Printf ''%d: syscall %s('' [D 3, KStr ''chdir''],
      Printf ''%s'' [PtrStr 0xFFFFFFFFFFFFFFFF],
      Printf '') -> %d\<newline>'' [D (- 1)]]
   \<and> fst (fetchstr ex_proc 0xFFFFFFFFFFFFFFFF [] 128) = - 1
   \<and> trace_args SYS_chdir [w0, w1, w2, w3, w4, w5] = [Printf ''%s'' [PtrStr w0]]
   \<and> trace_args SYS_unlink [w0, w1, w2, w3, w4, w5] = [Printf ''%s'' [PtrStr w0]]
   \<and> trace_args SYS_mkdir [w0, w1, w2, w3, w4, w5] = [Printf ''%s'' [PtrStr w0]]
   \<and> trace_args SYS_mknod [w0, w1, w2, w3, w4, w5] =
        [Printf ''%s, %lu, %lu'' [PtrStr w0, LU w1, LU w2]]
   \<and> trace_args SYS_link [w0, w1, w2, w3, w4, w5] = [Printf ''%s, %s'' [PtrStr w0, PtrStr w1]]
   \<and> trace_args SYS_open [w0, w1, w2, w3, w4, w5] =
        [if w0 = 0 then Printf ''NULL, %lu'' [LU w1] else Printf ''%p, %lu'' [P w0, LU w1]]"
proof -
  have slot: "syscalls ! 9 = Some sys_chdir"
    by (simp add: syscalls_eq)
  have entry: "syscall_names ! 8 = ''chdir''"
    by (simp add: syscall_names_def)
  have narrow: "(ucast (- 1 :: uint64) :: c_int) = - 1"
    by (rule bit_word_eqI) (simp add: bit_ucast_iff)
  have fail: "fst (fetchstr ex_proc 0xFFFFFFFFFFFFFFFF [] 128) = - 1"
    by code_simp
  show ?thesis
    using slot entry fail narrow
    by (simp add: syscall_def ex_proc_def run_const_def NELEM_syscalls word_sless_alt
        trace_args_def SYS_defs)
qed

end
